theory Spec2Isabelle
  imports Complex_Main "HOL-Library.Sublist"
begin

section \<open>Data model\<close>

text \<open>
  The one entity of the storefront is the product row of the \<open>products\<close> table
  (\<open>CREATE TABLE products\<close> in the migration, \<open>type Product\<close> in the admin page).
  The decimal \<open>price\<close> of a row is the exact decimal the store keeps (\<open>numeric\<close>), a
  rational number.  Time stamps are points on a discrete clock.  A string is the list
  of the UTF-8 bytes of its text, so that ASCII text has one \<open>char\<close> for each character.
\<close>

type_synonym timestamp = nat

record product =
  id' :: nat
  name :: string
  slug :: string
  description :: string
  price :: rat
  category :: string
  inventory :: int
  last_updated :: timestamp
  created_at :: timestamp

text \<open>
  A call of the store client resolves to \<open>{ data, error }\<close>: either the error is set,
  or the data is there.
\<close>

datatype 'a pg_response = PgData 'a | PgError string

section \<open>Inventory dashboard: \<open>getDashboardData\<close>\<close>

text \<open>
  The category tally is kept in a plain object literal \<open>{}\<close>.  Reading \<open>acc[k]\<close> on
  such an object finds an own property first and then the properties every object
  inherits from \<open>Object.prototype\<close>; only when both fail is the result \<open>undefined\<close>.
  The values that occur are numbers, strings, \<open>undefined\<close>, and the inherited functions
  and objects, which are kept here by the text they convert to.
\<close>

datatype jsval = Undefined | Num nat | Str string | Obj string

text \<open>
  The properties of \<open>Object.prototype\<close>, each with the string its value converts to
  under \<open>+\<close> (the source text of a built-in function as Node prints it; for the
  accessor \<open>__proto__\<close> the prototype object itself).
\<close>

definition native_code :: "string \<Rightarrow> string" where
  "native_code f = ''function '' @ f @ ''() { [native code] }''"

definition Object_prototype :: "(string \<times> string) list" where
  "Object_prototype =
     [(''constructor'', native_code ''Object''),
      (''__defineGetter__'', native_code ''__defineGetter__''),
      (''__defineSetter__'', native_code ''__defineSetter__''),
      (''hasOwnProperty'', native_code ''hasOwnProperty''),
      (''__lookupGetter__'', native_code ''__lookupGetter__''),
      (''__lookupSetter__'', native_code ''__lookupSetter__''),
      (''isPrototypeOf'', native_code ''isPrototypeOf''),
      (''propertyIsEnumerable'', native_code ''propertyIsEnumerable''),
      (''toString'', native_code ''toString''),
      (''valueOf'', native_code ''valueOf''),
      (''__proto__'', ''[object Object]''),
      (''toLocaleString'', native_code ''toLocaleString'')]"

type_synonym js_object = "string \<rightharpoonup> jsval"

definition get_prop :: "js_object \<Rightarrow> string \<Rightarrow> jsval" where
  \<comment> \<open>\<open>acc[k]\<close>: own property, else inherited property, else \<open>undefined\<close>\<close>
  "get_prop acc k =
     (case acc k of
        Some v \<Rightarrow> v
      | None \<Rightarrow> (case map_of Object_prototype k of Some s \<Rightarrow> Obj s | None \<Rightarrow> Undefined))"

fun or_zero_plus_one :: "jsval \<Rightarrow> jsval" where
  \<comment> \<open>\<open>(v || 0) + 1\<close>: a falsy \<open>v\<close> is replaced by 0; \<open>+\<close> adds numbers and
      concatenates as soon as one side is not a number\<close>
  "or_zero_plus_one Undefined = Num 1"
| "or_zero_plus_one (Num n) = (if n = 0 then Num 1 else Num (n + 1))"
| "or_zero_plus_one (Str s) = (if s = [] then Num 1 else Str (s @ ''1''))"
| "or_zero_plus_one (Obj s) = Str (s @ ''1'')"

definition set_prop :: "js_object \<Rightarrow> string \<Rightarrow> jsval \<Rightarrow> js_object" where
  \<comment> \<open>\<open>acc[k] = v\<close> for a number or string \<open>v\<close>: the inherited setter of \<open>__proto__\<close>
      ignores such a value and no own property is created; every other key becomes
      an own property\<close>
  "set_prop acc k v = (if k = ''__proto__'' then acc else acc(k \<mapsto> v))"

definition count_category :: "js_object \<Rightarrow> product \<Rightarrow> js_object" where
  \<comment> \<open>the callback \<open>(acc, p) => { acc[p.category] = (acc[p.category] || 0) + 1; return acc; }\<close>\<close>
  "count_category acc p =
     set_prop acc (category p) (or_zero_plus_one (get_prop acc (category p)))"

text \<open>
  The inventory value is computed in JavaScript numbers, which are IEEE doubles.  Their
  arithmetic is a parameter of the aggregate: the number a decimal price of the store
  is received as, the number of an integer, zero, \<open>+\<close> and \<open>*\<close>.
\<close>

record 'd js_numbers =
  js_decimal :: "rat \<Rightarrow> 'd"
  js_integer :: "int \<Rightarrow> 'd"
  js_zero :: 'd
  js_add :: "'d \<Rightarrow> 'd \<Rightarrow> 'd"
  js_mul :: "'d \<Rightarrow> 'd \<Rightarrow> 'd"

record 'd dashboard =
  products :: "product list"
  totalProducts :: nat
  lowStockProducts :: "product list"
  totalValue :: 'd
  categories :: js_object

definition aggregate :: "'d js_numbers \<Rightarrow> product list \<Rightarrow> 'd dashboard" where
  \<comment> \<open>the part of \<open>getDashboardData\<close> after the fetch\<close>
  "aggregate num ps =
     \<lparr> products = ps,
       totalProducts = length ps,
       lowStockProducts = filter (\<lambda>p. inventory p < 5) ps,
       totalValue =
         foldl (\<lambda>sum p. js_add num sum (js_mul num (js_decimal num (price p))
                                                  (js_integer num (inventory p))))
           (js_zero num) ps,
       categories = foldl count_category Map.empty ps \<rparr>"

definition getDashboardData :: "'d js_numbers \<Rightarrow> product list pg_response \<Rightarrow> 'd dashboard" where
  "getDashboardData num fetched =
     (case fetched of
        PgError e \<Rightarrow>
          \<lparr> products = [], totalProducts = 0, lowStockProducts = [],
            totalValue = js_zero num, categories = Map.empty \<rparr>
      | PgData ps \<Rightarrow> aggregate num ps)"

section \<open>The catalog store\<close>

text \<open>
  The store is the hosted \<open>products\<close> table behind the client of \<open>@/lib/supabase\<close>.
  Its state is the list of rows, in the store's own order, and the error, if any, with
  which it currently answers every call (an outage, a rejected connection).
\<close>

record store =
  rows :: "product list"
  fault :: "string option"

text \<open>
  Modelled from the spec: the query builder of the store client, which is not part of
  the sources.  A read applies filters, ordering and a limit to the rows; \<open>gte\<close> keeps
  the rows at or above a threshold, \<open>eq\<close> the rows with the given key, \<open>order\<close> sorts
  (here: stably) and \<open>limit\<close> cuts the result off.
\<close>

definition run_query :: "store \<Rightarrow> (product list \<Rightarrow> product list) \<Rightarrow> product list pg_response" where
  "run_query st q = (case fault st of Some e \<Rightarrow> PgError e | None \<Rightarrow> PgData (q (rows st)))"

definition eq_slug :: "string \<Rightarrow> product list \<Rightarrow> product list" where
  "eq_slug s = filter (\<lambda>p. slug p = s)"

definition gte_inventory :: "int \<Rightarrow> product list \<Rightarrow> product list" where
  "gte_inventory n = filter (\<lambda>p. n \<le> inventory p)"

definition order_price_descending :: "product list \<Rightarrow> product list" where
  "order_price_descending = sort_key (\<lambda>p. - price p)"

definition limit :: "nat \<Rightarrow> product list \<Rightarrow> product list" where
  "limit n = take n"

definition not_singular :: string where
  "not_singular = ''JSON object requested, multiple (or no) rows returned''"

text \<open>
  Modelled from the spec: \<open>maybeSingle\<close> answers a missing row with no data and no
  error (the "not found" signal of \<open>get_by_slug\<close>), \<open>single\<close> answers it with an
  error (update "fails with not found if no row matches").
\<close>

fun maybeSingle :: "product list pg_response \<Rightarrow> product option pg_response" where
  "maybeSingle (PgError e) = PgError e"
| "maybeSingle (PgData []) = PgData None"
| "maybeSingle (PgData [p]) = PgData (Some p)"
| "maybeSingle (PgData (p # q # ps)) = PgError not_singular"

fun single :: "product list pg_response \<Rightarrow> product pg_response" where
  "single (PgError e) = PgError e"
| "single (PgData [p]) = PgData p"
| "single (PgData ps) = PgError not_singular"

section \<open>Requests\<close>

text \<open>
  A parsed JSON body.  The properties of an object are listed once each.  A JavaScript
  variable that holds a JSON value or \<open>undefined\<close> is a \<open>json option\<close>, with \<open>None\<close>
  for \<open>undefined\<close>.
\<close>

datatype json =
  JNull | JBool bool | JNum rat | JStr string | JArr "json list" | JObj "(string \<times> json) list"

fun property :: "json \<Rightarrow> string \<Rightarrow> json option" where
  \<comment> \<open>\<open>body.k\<close> for the field names the handlers destructure; none of them is
      inherited by an object, an array or a primitive\<close>
  "property (JObj kvs) k = map_of kvs k"
| "property b k = None"

fun truthy :: "json option \<Rightarrow> bool" where
  "truthy None = False"
| "truthy (Some JNull) = False"
| "truthy (Some (JBool b)) = b"
| "truthy (Some (JNum q)) = (q \<noteq> 0)"
| "truthy (Some (JStr s)) = (s \<noteq> [])"
| "truthy (Some (JArr vs)) = True"
| "truthy (Some (JObj kvs)) = True"

text \<open>
  Of a request the handlers read the \<open>x-admin-key\<close> header (\<open>None\<close>: the header is
  absent and \<open>headers.get\<close> gives \<open>null\<close>) and the body (\<open>None\<close>: the body is not
  JSON and \<open>request.json()\<close> throws).  Of the environment they read
  \<open>process.env.ADMIN_KEY\<close> (\<open>None\<close>: not configured, \<open>undefined\<close>) and the clock.
\<close>

record request =
  x_admin_key :: "string option"
  body :: "json option"

record env =
  ADMIN_KEY :: "string option"
  now :: timestamp

definition strict_neq :: "string option \<Rightarrow> string option \<Rightarrow> bool" where
  \<comment> \<open>\<open>adminKey !== process.env.ADMIN_KEY\<close>; \<open>null\<close> and \<open>undefined\<close> differ\<close>
  "strict_neq adminKey configured =
     (case adminKey of
        None \<Rightarrow> True
      | Some a \<Rightarrow> (case configured of None \<Rightarrow> True | Some c \<Rightarrow> a \<noteq> c))"

datatype reply = ErrorReply string | ProductReply product

record http_response =
  status :: nat
  reply :: reply

definition json_error :: "string \<Rightarrow> nat \<Rightarrow> http_response" where
  \<comment> \<open>\<open>NextResponse.json({ error: msg }, { status: code })\<close>\<close>
  "json_error msg code = \<lparr> status = code, reply = ErrorReply msg \<rparr>"

section \<open>Query layer\<close>

definition getRecommendedProducts :: "store \<Rightarrow> product list" where
  "getRecommendedProducts st =
     (case run_query st (limit 6 \<circ> order_price_descending \<circ> gte_inventory 10) of
        PgError e \<Rightarrow> []
      | PgData ps \<Rightarrow> ps)"

definition GET_slug :: "store \<Rightarrow> string \<Rightarrow> http_response" where
  \<comment> \<open>\<open>GET /api/products/[slug]\<close>\<close>
  "GET_slug st s =
     (case maybeSingle (run_query st (eq_slug s)) of
        PgError e \<Rightarrow> json_error e 500
      | PgData None \<Rightarrow> json_error ''Product not found'' 404
      | PgData (Some p) \<Rightarrow> \<lparr> status = 200, reply = ProductReply p \<rparr>)"

section \<open>Mutation layer\<close>

subsection \<open>What the store does with a write\<close>

text \<open>
  The objects the handlers hand to the store.  A key that was not set on the object is
  \<open>None\<close>.
\<close>

record updateData =
  u_last_updated :: timestamp
  u_name :: "json option"
  u_description :: "json option"
  u_price :: "json option"
  u_category :: "json option"
  u_inventory :: "json option"

record insert_row =
  i_name :: "json option"
  i_slug :: "json option"
  i_description :: "json option"
  i_price :: "json option"
  i_category :: "json option"
  i_inventory :: "json option"
  i_last_updated :: timestamp

text \<open>
  Modelled from the spec: how the store takes a JSON value into a column of the table
  (\<open>text\<close>, \<open>numeric\<close>, \<open>integer\<close>, all \<open>NOT NULL\<close>).  A string fits a text column, a
  number a numeric column, a whole number an integer column.  The store is taken to
  refuse every other value; the theorems below that depend on a value being accepted
  assume values of these shapes.
\<close>

fun as_text :: "json \<Rightarrow> string option" where
  "as_text (JStr s) = Some s"
| "as_text v = None"

fun as_numeric :: "json \<Rightarrow> rat option" where
  "as_numeric (JNum q) = Some q"
| "as_numeric v = None"

fun as_integer :: "json \<Rightarrow> int option" where
  "as_integer (JNum q) = (if q = of_int \<lfloor>q\<rfloor> then Some \<lfloor>q\<rfloor> else None)"
| "as_integer v = None"

definition set_column :: "(json \<Rightarrow> 'a option) \<Rightarrow> json option \<Rightarrow> 'a \<Rightarrow> 'a option" where
  \<comment> \<open>the new value of a column: the old one when the key is not set\<close>
  "set_column conv v old = (case v of None \<Rightarrow> Some old | Some j \<Rightarrow> conv j)"

definition apply_update :: "updateData \<Rightarrow> product \<Rightarrow> product option" where
  "apply_update u p =
     (case set_column as_text (u_name u) (name p) of None \<Rightarrow> None | Some n \<Rightarrow>
     (case set_column as_text (u_description u) (description p) of None \<Rightarrow> None | Some d \<Rightarrow>
     (case set_column as_numeric (u_price u) (price p) of None \<Rightarrow> None | Some pr \<Rightarrow>
     (case set_column as_text (u_category u) (category p) of None \<Rightarrow> None | Some c \<Rightarrow>
     (case set_column as_integer (u_inventory u) (inventory p) of None \<Rightarrow> None | Some i \<Rightarrow>
        Some (p\<lparr> name := n, description := d, price := pr, category := c, inventory := i,
                 last_updated := u_last_updated u \<rparr>))))))"

definition invalid_input :: string where
  "invalid_input = ''invalid input value''"

text \<open>
  Modelled from the spec: \<open>update(updateData).eq('slug', s).select().single()\<close>.  The
  rows with the given slug get the new column values and are returned; \<open>single\<close>
  wants exactly one of them, and a request that fails leaves the table as it was.
\<close>

definition store_update :: "store \<Rightarrow> updateData \<Rightarrow> string \<Rightarrow> product pg_response \<times> store" where
  "store_update st u s =
     (case fault st of
        Some e \<Rightarrow> (PgError e, st)
      | None \<Rightarrow>
         (case eq_slug s (rows st) of
            [p] \<Rightarrow>
              (case apply_update u p of
                 None \<Rightarrow> (PgError invalid_input, st)
               | Some p' \<Rightarrow>
                   (single (PgData [p']),
                    st\<lparr> rows := map (\<lambda>r. if slug r = s then p' else r) (rows st) \<rparr>))
          | ps \<Rightarrow> (single (PgData ps), st)))"

text \<open>
  Modelled from the spec: \<open>insert([row]).select().single()\<close>.  The store assigns the
  id and the creation time, refuses a value that does not fit its column and refuses
  a slug that is already there.
\<close>

definition fresh_id :: "product list \<Rightarrow> nat" where
  "fresh_id ps = Suc (foldr max (map id' ps) 0)"

definition duplicate_key :: string where
  "duplicate_key = ''duplicate key value violates unique constraint''"

definition store_insert :: "store \<Rightarrow> insert_row \<Rightarrow> product pg_response \<times> store" where
  "store_insert st r =
     (case fault st of
        Some e \<Rightarrow> (PgError e, st)
      | None \<Rightarrow>
         (case (Option.bind (i_name r) as_text, Option.bind (i_slug r) as_text,
                Option.bind (i_description r) as_text, Option.bind (i_price r) as_numeric,
                Option.bind (i_category r) as_text, Option.bind (i_inventory r) as_integer) of
            (Some n, Some s, Some d, Some pr, Some c, Some i) \<Rightarrow>
              if eq_slug s (rows st) \<noteq> [] then (PgError duplicate_key, st)
              else
                let p = \<lparr> id' = fresh_id (rows st), name = n, slug = s, description = d,
                          price = pr, category = c, inventory = i,
                          last_updated = i_last_updated r, created_at = i_last_updated r \<rparr>
                in (PgData p, st\<lparr> rows := rows st @ [p] \<rparr>)
          | _ \<Rightarrow> (PgError invalid_input, st)))"

subsection \<open>The handlers\<close>

definition POST ::
  "(store \<Rightarrow> insert_row \<Rightarrow> product pg_response \<times> store) \<Rightarrow> env \<Rightarrow> request \<Rightarrow> store
     \<Rightarrow> http_response \<times> store" where
  \<comment> \<open>\<open>POST /api/products\<close>; \<open>ins\<close> is the store's insert\<close>
  "POST ins e req st =
     (if strict_neq (x_admin_key req) (ADMIN_KEY e)
      then (json_error ''Unauthorized: Invalid admin key'' 401, st)
      else
        case body req of
          None \<Rightarrow> (json_error ''Failed to create product'' 500, st)
        | Some JNull \<Rightarrow> (json_error ''Failed to create product'' 500, st)
        | Some b \<Rightarrow>
            let name = property b ''name''; slug = property b ''slug'';
                description = property b ''description''; price = property b ''price'';
                category = property b ''category''; inventory = property b ''inventory''
            in
              if \<not> truthy name \<or> \<not> truthy slug \<or> \<not> truthy description \<or> price = None
                 \<or> \<not> truthy category \<or> inventory = None
              then (json_error ''Missing required fields'' 400, st)
              else
                (case ins st \<lparr> i_name = name, i_slug = slug, i_description = description,
                                i_price = price, i_category = category,
                                i_inventory = inventory, i_last_updated = now e \<rparr> of
                   (PgError msg, st') \<Rightarrow> (json_error msg 500, st')
                 | (PgData p, st') \<Rightarrow> (\<lparr> status = 201, reply = ProductReply p \<rparr>, st')))"

definition PUT :: "env \<Rightarrow> request \<Rightarrow> string \<Rightarrow> store \<Rightarrow> http_response \<times> store" where
  \<comment> \<open>\<open>PUT /api/products/[slug]\<close>; \<open>s\<close> is \<open>params.slug\<close>\<close>
  "PUT e req s st =
     (if strict_neq (x_admin_key req) (ADMIN_KEY e)
      then (json_error ''Unauthorized: Invalid admin key'' 401, st)
      else
        case body req of
          None \<Rightarrow> (json_error ''Failed to update product'' 500, st)
        | Some JNull \<Rightarrow> (json_error ''Failed to update product'' 500, st)
        | Some b \<Rightarrow>
            let updateData =
                  \<lparr> u_last_updated = now e,
                    u_name = property b ''name'',
                    u_description = property b ''description'',
                    u_price = property b ''price'',
                    u_category = property b ''category'',
                    u_inventory = property b ''inventory'' \<rparr>
            in
              (case store_update st updateData s of
                 (PgError msg, st') \<Rightarrow> (json_error msg 500, st')
               | (PgData p, st') \<Rightarrow> (\<lparr> status = 200, reply = ProductReply p \<rparr>, st')))"

section \<open>Client-side filter: \<open>ProductList\<close>\<close>












section \<open>The sample catalog\<close>

text \<open>
  The ten rows the migration inserts, in the order of the \<open>INSERT\<close> statement.  The ids
  and time stamps, which the store generates, are set to the position and to 0.
\<close>

definition sample_row :: "nat \<Rightarrow> string \<Rightarrow> string \<Rightarrow> string \<Rightarrow> rat \<Rightarrow> string \<Rightarrow> int \<Rightarrow> product" where
  "sample_row k n s d pr c i =
     \<lparr> id' = k, name = n, slug = s, description = d, price = pr, category = c,
       inventory = i, last_updated = 0, created_at = 0 \<rparr>"

definition sample_catalog :: "product list" where
  "sample_catalog =
     [sample_row 1 (''Laptop Pro 15'' @ [CHR 0x22]) ''laptop-pro-15''
        ''High-performance laptop with 16GB RAM and 512GB SSD'' (129999 / 100) ''Electronics'' 12,
      sample_row 2 ''Wireless Mouse'' ''wireless-mouse''
        ''Ergonomic wireless mouse with precision tracking'' (2999 / 100) ''Electronics'' 45,
      sample_row 3 ''Mechanical Keyboard'' ''mechanical-keyboard''
        ''RGB mechanical keyboard with blue switches'' (8999 / 100) ''Electronics'' 23,
      sample_row 4 ''USB-C Hub'' ''usb-c-hub''
        ''7-in-1 USB-C hub with HDMI and USB 3.0 ports'' (4999 / 100) ''Accessories'' 8,
      sample_row 5 ''Laptop Stand'' ''laptop-stand''
        ''Adjustable aluminum laptop stand'' (3999 / 100) ''Accessories'' 3,
      sample_row 6 ''Noise Cancelling Headphones'' ''noise-cancelling-headphones''
        ''Premium wireless headphones with active noise cancellation'' (24999 / 100) ''Audio'' 18,
      sample_row 7 ''Portable SSD 1TB'' ''portable-ssd-1tb''
        ''Fast external SSD with USB-C connectivity'' (12999 / 100) ''Storage'' 2,
      sample_row 8 ''Webcam HD'' ''webcam-hd''
        ''1080p HD webcam with auto-focus'' (7999 / 100) ''Electronics'' 15,
      sample_row 9 ''Phone Stand'' ''phone-stand''
        ''Adjustable phone stand for desk'' (1999 / 100) ''Accessories'' 34,
      sample_row 10 (''Monitor 27'' @ [CHR 0x22]) ''monitor-27''
        ''27-inch 4K monitor with IPS panel'' (39999 / 100) ''Electronics'' 7]"

definition sample_store :: store where
  "sample_store = \<lparr> rows = sample_catalog, fault = None \<rparr>"

section \<open>Auxiliary notions for the statements\<close>

definition tally :: "(string \<Rightarrow> nat) \<Rightarrow> js_object" where
  \<comment> \<open>the object whose own properties are the keys of positive count\<close>
  "tally cnt = (\<lambda>c. if cnt c = 0 then None else Some (Num (cnt c)))"

definition in_category :: "string \<Rightarrow> product list \<Rightarrow> nat" where
  "in_category c ps = length (filter (\<lambda>p. category p = c) ps)"

definition gadget :: "string \<Rightarrow> product" where
  \<comment> \<open>a product as the admin form can create it, in the category \<open>c\<close>\<close>
  "gadget c = sample_row 11 ''Gadget'' ''gadget'' ''A gadget'' 10 c 2"

definition admin_env :: env where
  \<comment> \<open>a deployment whose secret is the key of the admin page\<close>
  "admin_env = \<lparr> ADMIN_KEY = Some ''admin123'', now = 1000 \<rparr>"

definition admin_request :: "json \<Rightarrow> request" where
  "admin_request b = \<lparr> x_admin_key = Some ''admin123'', body = Some b \<rparr>"

definition cable_body :: "json \<Rightarrow> json \<Rightarrow> json \<Rightarrow> json" where
  \<comment> \<open>the body the admin form sends for a new product, with the given name, price and
      inventory\<close>
  "cable_body n pr i =
     JObj [(''name'', n), (''slug'', JStr ''usb-cable''), (''description'', JStr ''Braided cable''),
           (''price'', pr), (''category'', JStr ''Accessories''), (''inventory'', i)]"

definition falsy :: "json option set" where
  \<comment> \<open>the values of a body field that \<open>!\<close> turns into \<open>true\<close>\<close>
  "falsy = {None, Some JNull, Some (JBool False), Some (JNum 0), Some (JStr [])}"

definition updated_product ::
  "product \<Rightarrow> string option \<Rightarrow> string option \<Rightarrow> rat option \<Rightarrow> string option \<Rightarrow> int option
     \<Rightarrow> timestamp \<Rightarrow> product" where
  \<comment> \<open>the product with the supplied fields replaced and the time stamp refreshed\<close>
  "updated_product p n d pr c i t =
     p\<lparr> name := (case n of None \<Rightarrow> name p | Some x \<Rightarrow> x),
        description := (case d of None \<Rightarrow> description p | Some x \<Rightarrow> x),
        price := (case pr of None \<Rightarrow> price p | Some x \<Rightarrow> x),
        category := (case c of None \<Rightarrow> category p | Some x \<Rightarrow> x),
        inventory := (case i of None \<Rightarrow> inventory p | Some x \<Rightarrow> x),
        last_updated := t \<rparr>"





section \<open>Properties\<close>

subsection \<open>Aggregation\<close>

lemma getDashboardData_fetched: "getDashboardData num (PgData ps) = aggregate num ps"
  by (simp add: getDashboardData_def)

lemma aggregate_totalProducts: "totalProducts (aggregate num ps) = length ps"
  by (simp add: aggregate_def)

lemma aggregate_lowStockProducts:
  "lowStockProducts (aggregate num ps) = filter (\<lambda>p. inventory p < 5) ps"
  by (simp add: aggregate_def)

lemma aggregate_empty:
  "totalValue (aggregate num []) = js_zero num"
  "categories (aggregate num []) = Map.empty"
  by (simp_all add: aggregate_def)

text \<open>
  As long as no category is called like a property of \<open>Object.prototype\<close>, the tally
  is the map from each category that occurs to the number of its products.
\<close>

lemma count_category_tally:
  assumes "map_of Object_prototype (category p) = None"
  shows "count_category (tally cnt) p = tally (cnt(category p := Suc (cnt (category p))))"
proof -
  have "category p \<noteq> ''__proto__''"
    using assms by (auto simp: Object_prototype_def)
  then show ?thesis
    using assms
    by (auto simp: count_category_def set_prop_def get_prop_def tally_def fun_eq_iff)
qed

lemma foldl_count_category_tally:
  "\<forall>p\<in>set ps. map_of Object_prototype (category p) = None \<Longrightarrow>
   foldl count_category (tally cnt) ps = tally (\<lambda>c. cnt c + in_category c ps)"
proof (induction ps arbitrary: cnt)
  case Nil
  then show ?case by (simp add: in_category_def)
next
  case (Cons p ps)
  have "foldl count_category (tally cnt) (p # ps)
        = foldl count_category (tally (cnt(category p := Suc (cnt (category p))))) ps"
    using Cons.prems by (simp add: count_category_tally)
  also have "\<dots> = tally (\<lambda>c. (cnt(category p := Suc (cnt (category p)))) c + in_category c ps)"
    using Cons.prems by (intro Cons.IH) simp
  also have "\<dots> = tally (\<lambda>c. cnt c + in_category c (p # ps))"
    by (rule arg_cong [where f = tally]) (auto simp: in_category_def fun_eq_iff)
  finally show ?case .
qed

lemma aggregate_categories:
  assumes "\<forall>p\<in>set ps. map_of Object_prototype (category p) = None"
  shows "categories (aggregate num ps) c =
           (if c \<in> category ` set ps then Some (Num (in_category c ps)) else None)"
proof -
  have e: "Map.empty = tally (\<lambda>c. 0)"
    by (simp add: tally_def)
  have "categories (aggregate num ps) = tally (\<lambda>c. in_category c ps)"
    using foldl_count_category_tally [OF assms, of "\<lambda>c. 0"] by (simp add: aggregate_def e)
  moreover have "in_category c ps = 0 \<longleftrightarrow> c \<notin> category ` set ps"
    by (auto simp: in_category_def filter_empty_conv)
  ultimately show ?thesis
    by (simp add: tally_def)
qed

text \<open>
  C1. The dashboard's aggregate is to give, for every list of products, the count, the
  low-stock products, the inventory value and a map from each category name to the
  number of products in it.  The count and the low-stock products are as claimed
  (lemmas above), the map is not:
  for the single product \<open>gadget ''constructor''\<close> the read \<open>acc[''constructor'']\<close>
  finds the inherited constructor function, so the entry becomes the string
  \<open>function Object() { [native code] }1\<close> instead of the number 1; and for a product
  in the category \<open>__proto__\<close> the assignment is swallowed and the category is absent
  from the map.
\<close>

theorem aggregate_inherited_category:
  "totalProducts (getDashboardData num (PgData [gadget ''constructor''])) = 1
   \<and> categories (getDashboardData num (PgData [gadget ''constructor''])) ''constructor''
       = Some (Str ''function Object() { [native code] }1'')
   \<and> categories (getDashboardData num (PgData [gadget ''constructor''])) ''constructor''
       \<noteq> Some (Num 1)
   \<and> categories (getDashboardData num (PgData [gadget ''__proto__''])) ''__proto__'' = None"
  by (simp add: getDashboardData_def aggregate_def count_category_def set_prop_def get_prop_def
      Object_prototype_def gadget_def sample_row_def native_code_def)

subsection \<open>The recommended set\<close>

lemma sorted_price_descending:
  "sorted_wrt (\<lambda>a b. price b \<le> price a) (sort_key (\<lambda>p. - price p) ps)"
proof -
  have "sorted (map (\<lambda>p. - price p) (sort_key (\<lambda>p. - price p) ps))"
    by (rule sorted_sort_key)
  then show ?thesis
    by (simp only: sorted_wrt_map neg_le_iff_le)
qed

lemma recommended_healthy:
  "fault st = None \<Longrightarrow>
   getRecommendedProducts st
     = take 6 (sort_key (\<lambda>p. - price p) (filter (\<lambda>p. 10 \<le> inventory p) (rows st)))"
  by (simp add: getRecommendedProducts_def run_query_def limit_def order_price_descending_def
      gte_inventory_def)

lemma recommended_faulty: "fault st = Some e \<Longrightarrow> getRecommendedProducts st = []"
  by (simp add: getRecommendedProducts_def run_query_def)

lemma sample_recommended:
  "getRecommendedProducts sample_store
     = [sample_catalog ! 0, sample_catalog ! 5, sample_catalog ! 2, sample_catalog ! 7,
        sample_catalog ! 1, sample_catalog ! 8]"
  by (simp add: getRecommendedProducts_def run_query_def limit_def order_price_descending_def
      gte_inventory_def sample_store_def sample_catalog_def sample_row_def)

text \<open>
  C2. In every state of the catalog, whether the store answers or fails, the
  recommended-set query returns at most 6 products, each with an inventory of at least
  10, in descending order of price.
\<close>

theorem recommended_set:
  "length (getRecommendedProducts st) \<le> 6
   \<and> (\<forall>p\<in>set (getRecommendedProducts st). 10 \<le> inventory p)
   \<and> sorted_wrt (\<lambda>a b. price b \<le> price a) (getRecommendedProducts st)"
proof (cases "fault st")
  case None
  note r = recommended_healthy [OF None]
  have "\<forall>p\<in>set (getRecommendedProducts st). 10 \<le> inventory p"
  proof
    fix p
    assume "p \<in> set (getRecommendedProducts st)"
    then have "p \<in> set (sort_key (\<lambda>p. - price p) (filter (\<lambda>p. 10 \<le> inventory p) (rows st)))"
      unfolding r by (rule in_set_takeD)
    then show "10 \<le> inventory p"
      by simp
  qed
  moreover have "sorted_wrt (\<lambda>a b. price b \<le> price a) (getRecommendedProducts st)"
    unfolding r by (rule sorted_wrt_take) (rule sorted_price_descending)
  moreover have "length (getRecommendedProducts st) \<le> 6"
    unfolding r by simp
  ultimately show ?thesis
    by blast
next
  case (Some e)
  then show ?thesis
    by (simp add: recommended_faulty)
qed

theorem recommended_set_witness:
  "map inventory (getRecommendedProducts sample_store) = [12, 18, 23, 15, 45, 34]
   \<and> map price (getRecommendedProducts sample_store)
       = [129999 / 100, 24999 / 100, 8999 / 100, 7999 / 100, 2999 / 100, 1999 / 100]
   \<and> length (getRecommendedProducts sample_store) \<le> 6
   \<and> sorted_wrt (\<lambda>a b. price b \<le> price a) (getRecommendedProducts sample_store)"
  using recommended_set [of sample_store]
  by (simp add: sample_recommended sample_catalog_def sample_row_def)

subsection \<open>The admin gate\<close>

lemma neq_strict_neq: "h \<noteq> k \<Longrightarrow> strict_neq h k"
  by (auto simp: strict_neq_def split: option.splits)

lemma strict_neq_unconfigured: "strict_neq h None"
  by (simp add: strict_neq_def split: option.splits)

lemma admin_request_authorized:
  "\<not> strict_neq (x_admin_key (admin_request b)) (ADMIN_KEY admin_env)"
  "body (admin_request b) = Some b"
  by (simp_all add: admin_request_def admin_env_def strict_neq_def)

text \<open>
  C4. A request to \<open>POST /products\<close> or \<open>PUT /products/{slug}\<close> whose
  \<open>x-admin-key\<close> header is not the configured secret is answered with 401, whatever
  its body is (valid, invalid or not JSON at all) and whatever the store would do, and
  the store is left as it was.
\<close>

theorem unauthorized_rejected:
  assumes "x_admin_key req \<noteq> ADMIN_KEY e"
  shows "POST ins e req st = (json_error ''Unauthorized: Invalid admin key'' 401, st)
       \<and> PUT e req s st = (json_error ''Unauthorized: Invalid admin key'' 401, st)"
  using neq_strict_neq [OF assms] by (simp add: POST_def PUT_def)

theorem unauthorized_rejected_witness:
  "POST store_insert admin_env
     \<lparr> x_admin_key = Some ''letmein'',
       body = Some (cable_body (JStr ''USB cable'') (JNum 5) (JNum 3)) \<rparr> sample_store
     = (json_error ''Unauthorized: Invalid admin key'' 401, sample_store)
   \<and> PUT admin_env
     \<lparr> x_admin_key = Some ''letmein'',
       body = Some (cable_body (JStr ''USB cable'') (JNum 5) (JNum 3)) \<rparr>
     ''wireless-mouse'' sample_store
     = (json_error ''Unauthorized: Invalid admin key'' 401, sample_store)"
  using unauthorized_rejected [of
      "\<lparr> x_admin_key = Some ''letmein'',
         body = Some (cable_body (JStr ''USB cable'') (JNum 5) (JNum 3)) \<rparr>"
      admin_env store_insert sample_store "''wireless-mouse''"]
  by (simp add: admin_env_def)

subsection \<open>Validation on create\<close>

lemma truthy_falsy: "truthy v \<longleftrightarrow> v \<notin> falsy"
proof (cases v)
  case None
  then show ?thesis by (simp add: falsy_def)
next
  case (Some j)
  then show ?thesis by (cases j) (auto simp: falsy_def)
qed

lemma POST_authorized:
  assumes "\<not> strict_neq (x_admin_key req) (ADMIN_KEY e)" "body req = Some b" "b \<noteq> JNull"
  shows "POST ins e req st =
     (if \<not> truthy (property b ''name'') \<or> \<not> truthy (property b ''slug'')
         \<or> \<not> truthy (property b ''description'') \<or> property b ''price'' = None
         \<or> \<not> truthy (property b ''category'') \<or> property b ''inventory'' = None
      then (json_error ''Missing required fields'' 400, st)
      else
        (case ins st \<lparr> i_name = property b ''name'', i_slug = property b ''slug'',
                        i_description = property b ''description'',
                        i_price = property b ''price'', i_category = property b ''category'',
                        i_inventory = property b ''inventory'', i_last_updated = now e \<rparr> of
           (PgError msg, st') \<Rightarrow> (json_error msg 500, st')
         | (PgData p, st') \<Rightarrow> (\<lparr> status = 201, reply = ProductReply p \<rparr>, st')))"
  using assms by (cases b) (simp_all add: POST_def Let_def)

lemma insert_outcome_status:
  "status (fst (case r of
           (PgError msg, st') \<Rightarrow> (json_error msg 500, st')
         | (PgData p, st') \<Rightarrow> (\<lparr> status = 201, reply = ProductReply p \<rparr>, st'))) \<noteq> 400"
  by (auto simp: json_error_def split: prod.splits pg_response.splits)

lemma cable_body_property:
  "property (cable_body n pr i) ''name'' = Some n"
  "property (cable_body n pr i) ''slug'' = Some (JStr ''usb-cable'')"
  "property (cable_body n pr i) ''description'' = Some (JStr ''Braided cable'')"
  "property (cable_body n pr i) ''price'' = Some pr"
  "property (cable_body n pr i) ''category'' = Some (JStr ''Accessories'')"
  "property (cable_body n pr i) ''inventory'' = Some i"
  "cable_body n pr i \<noteq> JNull"
  by (simp_all add: cable_body_def)

lemma sample_insert:
  "store_insert sample_store
     \<lparr> i_name = Some (JStr ''USB cable''), i_slug = Some (JStr ''usb-cable''),
       i_description = Some (JStr ''Braided cable''), i_price = Some (JNum pr),
       i_category = Some (JStr ''Accessories''), i_inventory = Some (JNum (of_int i)),
       i_last_updated = t \<rparr>
   = (PgData \<lparr> id' = 11, name = ''USB cable'', slug = ''usb-cable'', description = ''Braided cable'',
         price = pr, category = ''Accessories'', inventory = i, last_updated = t, created_at = t \<rparr>,
      sample_store\<lparr> rows := sample_catalog @
        [\<lparr> id' = 11, name = ''USB cable'', slug = ''usb-cable'', description = ''Braided cable'',
         price = pr, category = ''Accessories'', inventory = i, last_updated = t, created_at = t \<rparr>] \<rparr>)"
  by (simp add: store_insert_def sample_store_def sample_catalog_def sample_row_def eq_slug_def Let_def
      fresh_id_def)

lemma sample_create:
  "POST store_insert admin_env
     (admin_request (cable_body (JStr ''USB cable'') (JNum pr) (JNum (of_int i)))) sample_store
   = (\<lparr> status = 201, reply = ProductReply
         \<lparr> id' = 11, name = ''USB cable'', slug = ''usb-cable'', description = ''Braided cable'',
           price = pr, category = ''Accessories'', inventory = i, last_updated = 1000,
           created_at = 1000 \<rparr> \<rparr>,
      sample_store\<lparr> rows := sample_catalog @
        [\<lparr> id' = 11, name = ''USB cable'', slug = ''usb-cable'', description = ''Braided cable'',
           price = pr, category = ''Accessories'', inventory = i, last_updated = 1000,
           created_at = 1000 \<rparr>] \<rparr>)"
proof -
  have n: "now admin_env = 1000"
    by (simp add: admin_env_def)
  show ?thesis
    unfolding POST_authorized [OF admin_request_authorized cable_body_property(7)]
    by (simp add: cable_body_property sample_insert n)
qed

lemma sample_insert_null:
  "store_insert sample_store
     \<lparr> i_name = Some (JStr ''USB cable''), i_slug = Some (JStr ''usb-cable''),
       i_description = Some (JStr ''Braided cable''), i_price = Some JNull,
       i_category = Some (JStr ''Accessories''), i_inventory = Some JNull,
       i_last_updated = t \<rparr>
   = (PgError invalid_input, sample_store)"
  by (simp add: store_insert_def sample_store_def)

lemma sample_create_null:
  "POST store_insert admin_env
     (admin_request (cable_body (JStr ''USB cable'') JNull JNull)) sample_store
   = (json_error invalid_input 500, sample_store)"
  unfolding POST_authorized [OF admin_request_authorized cable_body_property(7)]
  by (simp add: cable_body_property sample_insert_null)

text \<open>
  C5, as the claim states it: an authorized create is answered with 400 exactly when
  one of the six required fields is missing from the body.  It fails for a body that
  has all six fields and an empty name: the answer is 400 although nothing is missing.
\<close>

theorem create_empty_name_counterexample:
  "status (fst (POST store_insert admin_env
       (admin_request (cable_body (JStr []) (JNum 5) (JNum 3))) sample_store)) = 400
   \<and> property (cable_body (JStr []) (JNum 5) (JNum 3)) ''name'' \<noteq> None
   \<and> property (cable_body (JStr []) (JNum 5) (JNum 3)) ''slug'' \<noteq> None
   \<and> property (cable_body (JStr []) (JNum 5) (JNum 3)) ''description'' \<noteq> None
   \<and> property (cable_body (JStr []) (JNum 5) (JNum 3)) ''price'' \<noteq> None
   \<and> property (cable_body (JStr []) (JNum 5) (JNum 3)) ''category'' \<noteq> None
   \<and> property (cable_body (JStr []) (JNum 5) (JNum 3)) ''inventory'' \<noteq> None"
  by (simp add: POST_def admin_request_def admin_env_def strict_neq_def cable_body_def json_error_def)

text \<open>
  C5, amended.  For an authorized create whose body parses to a JSON value other than
  \<open>null\<close>, the answer is 400 exactly when \<open>name\<close>, \<open>slug\<close>, \<open>description\<close> or
  \<open>category\<close> is absent or falsy (\<open>null\<close>, \<open>false\<close>, 0, the empty string), or
  \<open>price\<close> or \<open>inventory\<close> is absent.  On 400 the store is unchanged; otherwise the
  answer is the outcome of the store's insert of the six fields and the current time.
\<close>

theorem create_validation:
  assumes "\<not> strict_neq (x_admin_key req) (ADMIN_KEY e)" "body req = Some b" "b \<noteq> JNull"
  shows "(status (fst (POST ins e req st)) = 400
          \<longleftrightarrow> property b ''name'' \<in> falsy \<or> property b ''slug'' \<in> falsy
              \<or> property b ''description'' \<in> falsy \<or> property b ''price'' = None
              \<or> property b ''category'' \<in> falsy \<or> property b ''inventory'' = None)
       \<and> (status (fst (POST ins e req st)) = 400
            \<longrightarrow> POST ins e req st = (json_error ''Missing required fields'' 400, st))
       \<and> (status (fst (POST ins e req st)) \<noteq> 400
            \<longrightarrow> POST ins e req st =
                (case ins st \<lparr> i_name = property b ''name'', i_slug = property b ''slug'',
                        i_description = property b ''description'',
                        i_price = property b ''price'', i_category = property b ''category'',
                        i_inventory = property b ''inventory'', i_last_updated = now e \<rparr> of
                   (PgError msg, st') \<Rightarrow> (json_error msg 500, st')
                 | (PgData p, st') \<Rightarrow> (\<lparr> status = 201, reply = ProductReply p \<rparr>, st')))"
  unfolding POST_authorized [OF assms]
  by (simp add: truthy_falsy insert_outcome_status) (simp add: json_error_def)

theorem create_validation_witness:
  "\<not> strict_neq (x_admin_key (admin_request (cable_body (JNum 0) (JNum 5) (JNum 3))))
       (ADMIN_KEY admin_env)
   \<and> body (admin_request (cable_body (JNum 0) (JNum 5) (JNum 3)))
       = Some (cable_body (JNum 0) (JNum 5) (JNum 3))
   \<and> cable_body (JNum 0) (JNum 5) (JNum 3) \<noteq> JNull
   \<and> POST store_insert admin_env
        (admin_request (cable_body (JNum 0) (JNum 5) (JNum 3))) sample_store
       = (json_error ''Missing required fields'' 400, sample_store)"
proof -
  let ?b = "cable_body (JNum 0) (JNum 5) (JNum 3)"
  note v = create_validation [where req = "admin_request ?b" and e = admin_env and b = ?b
      and ins = store_insert and st = sample_store,
      OF admin_request_authorized cable_body_property(7)]
  have "property ?b ''name'' \<in> falsy"
    by (simp add: cable_body_property falsy_def)
  with v have "status (fst (POST store_insert admin_env (admin_request ?b) sample_store)) = 400"
    by blast
  with v have "POST store_insert admin_env (admin_request ?b) sample_store
       = (json_error ''Missing required fields'' 400, sample_store)"
    by blast
  then show ?thesis
    by (simp add: admin_request_authorized cable_body_property)
qed

text \<open>
  C10. The validation on create treats text and numbers differently: an empty
  \<open>name\<close>, \<open>slug\<close>, \<open>description\<close> or \<open>category\<close> is answered with 400; when the
  four texts are truthy, the answer is 400 exactly when \<open>price\<close> or \<open>inventory\<close> is
  absent, so that a price or an inventory of 0 or \<open>null\<close> passes the validation.
\<close>

theorem create_validation_asymmetry:
  assumes "\<not> strict_neq (x_admin_key req) (ADMIN_KEY e)" and "body req = Some (JObj kvs)"
  shows "(map_of kvs ''name'' = Some (JStr []) \<or> map_of kvs ''slug'' = Some (JStr [])
          \<or> map_of kvs ''description'' = Some (JStr []) \<or> map_of kvs ''category'' = Some (JStr [])
          \<longrightarrow> POST ins e req st = (json_error ''Missing required fields'' 400, st))
       \<and> (truthy (map_of kvs ''name'') \<and> truthy (map_of kvs ''slug'')
          \<and> truthy (map_of kvs ''description'') \<and> truthy (map_of kvs ''category'')
          \<longrightarrow> (status (fst (POST ins e req st)) = 400
                \<longleftrightarrow> map_of kvs ''price'' = None \<or> map_of kvs ''inventory'' = None))
       \<and> (truthy (map_of kvs ''name'') \<and> truthy (map_of kvs ''slug'')
          \<and> truthy (map_of kvs ''description'') \<and> truthy (map_of kvs ''category'')
          \<and> map_of kvs ''price'' \<in> {Some (JNum 0), Some JNull}
          \<and> map_of kvs ''inventory'' \<in> {Some (JNum 0), Some JNull}
          \<longrightarrow> status (fst (POST ins e req st)) \<noteq> 400)"
proof -
  have b: "JObj kvs \<noteq> JNull" by simp
  note P = POST_authorized [OF assms(1) assms(2) b, of ins st]
  have 1: "map_of kvs ''name'' = Some (JStr []) \<or> map_of kvs ''slug'' = Some (JStr [])
          \<or> map_of kvs ''description'' = Some (JStr []) \<or> map_of kvs ''category'' = Some (JStr [])
          \<longrightarrow> POST ins e req st = (json_error ''Missing required fields'' 400, st)"
    unfolding P by auto
  have 2: "truthy (map_of kvs ''name'') \<and> truthy (map_of kvs ''slug'')
          \<and> truthy (map_of kvs ''description'') \<and> truthy (map_of kvs ''category'')
          \<longrightarrow> (status (fst (POST ins e req st)) = 400
                \<longleftrightarrow> map_of kvs ''price'' = None \<or> map_of kvs ''inventory'' = None)"
    unfolding P by (simp add: insert_outcome_status) (simp add: json_error_def)
  have 3: "truthy (map_of kvs ''name'') \<and> truthy (map_of kvs ''slug'')
          \<and> truthy (map_of kvs ''description'') \<and> truthy (map_of kvs ''category'')
          \<and> map_of kvs ''price'' \<in> {Some (JNum 0), Some JNull}
          \<and> map_of kvs ''inventory'' \<in> {Some (JNum 0), Some JNull}
          \<longrightarrow> status (fst (POST ins e req st)) \<noteq> 400"
    using 2 by auto
  from 1 2 3 show ?thesis by blast
qed

theorem create_validation_asymmetry_witness:
  "POST store_insert admin_env
      (admin_request (cable_body (JStr []) (JNum 5) (JNum 3))) sample_store
     = (json_error ''Missing required fields'' 400, sample_store)
   \<and> status (fst (POST store_insert admin_env
        (admin_request (cable_body (JStr ''USB cable'') (JNum 0) (JNum 0))) sample_store)) = 201
   \<and> status (fst (POST store_insert admin_env
        (admin_request (cable_body (JStr ''USB cable'') JNull JNull)) sample_store)) = 500"
proof -
  have "POST store_insert admin_env
      (admin_request (cable_body (JStr []) (JNum 5) (JNum 3))) sample_store
     = (json_error ''Missing required fields'' 400, sample_store)"
    using create_validation_asymmetry [where req = "admin_request (cable_body (JStr []) (JNum 5) (JNum 3))"
        and e = admin_env and ins = store_insert and st = sample_store
        and kvs = "[(''name'', JStr []), (''slug'', JStr ''usb-cable''),
           (''description'', JStr ''Braided cable''), (''price'', JNum 5),
           (''category'', JStr ''Accessories''), (''inventory'', JNum 3)]"]
    by (simp add: admin_request_authorized(1)) (simp add: admin_request_def cable_body_def)
  moreover have "status (fst (POST store_insert admin_env
        (admin_request (cable_body (JStr ''USB cable'') (JNum 0) (JNum 0))) sample_store)) = 201"
    using sample_create [of 0 0] by simp
  moreover have "status (fst (POST store_insert admin_env
        (admin_request (cable_body (JStr ''USB cable'') JNull JNull)) sample_store)) = 500"
    by (simp add: sample_create_null json_error_def)
  ultimately show ?thesis by blast
qed

subsection \<open>Reading a product by its slug\<close>

lemma eq_slug_empty: "(\<forall>p\<in>set ps. slug p \<noteq> s) \<Longrightarrow> eq_slug s ps = []"
  by (simp add: eq_slug_def filter_empty_conv)

lemma GET_slug_404_only_when_missing:
  "status (GET_slug st s) = 404 \<Longrightarrow> fault st = None \<and> (\<forall>p\<in>set (rows st). slug p \<noteq> s)"
proof (cases "fault st")
  case None
  assume a: "status (GET_slug st s) = 404"
  have "eq_slug s (rows st) = []"
  proof (cases "eq_slug s (rows st)")
    case Nil then show ?thesis .
  next
    case (Cons p ps)
    with a None show ?thesis
      by (cases ps) (simp_all add: GET_slug_def run_query_def json_error_def)
  qed
  then show ?thesis using None by (simp add: eq_slug_def filter_empty_conv)
next
  case (Some m)
  assume "status (GET_slug st s) = 404"
  with Some show ?thesis by (simp add: GET_slug_def run_query_def json_error_def)
qed

text \<open>
  C6. For a slug that no product of the store has, \<open>GET /products/{slug}\<close> answers
  with the not-found signal 404 whenever the store answers the query; the answer is a
  store error 500 only when the store itself fails.  A missing row is never reported
  as a store error.
\<close>

theorem GET_slug_missing:
  assumes "\<forall>p\<in>set (rows st). slug p \<noteq> s"
  shows "GET_slug st s =
           (case fault st of
              None \<Rightarrow> json_error ''Product not found'' 404
            | Some m \<Rightarrow> json_error m 500)"
  using eq_slug_empty [OF assms]
  by (simp add: GET_slug_def run_query_def split: option.splits)

theorem GET_slug_missing_witness:
  "GET_slug sample_store ''usb-cable'' = json_error ''Product not found'' 404"
  using GET_slug_missing [of sample_store "''usb-cable''"]
  by (simp add: sample_store_def sample_catalog_def sample_row_def)

subsection \<open>Updating a product\<close>

lemma store_update_missing:
  "\<forall>p\<in>set (rows st). slug p \<noteq> s \<Longrightarrow> \<exists>m. store_update st u s = (PgError m, st)"
  by (simp add: store_update_def eq_slug_empty split: option.splits)

lemma PUT_statuses: "status (fst (PUT e req s st)) \<in> {200, 401, 500}"
  by (auto simp: PUT_def json_error_def Let_def split: option.splits json.splits prod.splits pg_response.splits)

text \<open>
  C7. An authorized update whose slug matches no row is answered with 500, the status
  of every store failure, and leaves the store as it was; no request to the update
  endpoint is ever answered with 404.
\<close>

theorem PUT_missing_row:
  assumes "\<not> strict_neq (x_admin_key req) (ADMIN_KEY e)" and "\<forall>p\<in>set (rows st). slug p \<noteq> s"
  shows "status (fst (PUT e req s st)) = 500 \<and> snd (PUT e req s st) = st
       \<and> status (fst (PUT e' req' s' st')) \<noteq> 404"
proof -
  have "status (fst (PUT e req s st)) = 500 \<and> snd (PUT e req s st) = st"
  proof (cases "body req")
    case None
    with assms(1) show ?thesis by (simp add: PUT_def json_error_def)
  next
    case (Some b)
    show ?thesis
    proof (cases "b = JNull")
      case True
      with Some assms(1) show ?thesis by (simp add: PUT_def json_error_def)
    next
      case False
      let ?u = "\<lparr> u_last_updated = now e, u_name = property b ''name'',
                    u_description = property b ''description'', u_price = property b ''price'',
                    u_category = property b ''category'', u_inventory = property b ''inventory'' \<rparr>"
      obtain msg where "store_update st ?u s = (PgError msg, st)"
        using store_update_missing [OF assms(2)] by blast
      with False Some assms(1) show ?thesis
        by (cases b) (simp_all add: PUT_def json_error_def Let_def)
    qed
  qed
  moreover have "status (fst (PUT e' req' s' st')) \<noteq> 404"
    using PUT_statuses [of e' req' s' st'] by auto
  ultimately show ?thesis by blast
qed

theorem PUT_missing_row_witness:
  "status (fst (PUT admin_env (admin_request (JObj [(''price'', JNum 4)])) ''usb-cable''
      sample_store)) = 500
   \<and> snd (PUT admin_env (admin_request (JObj [(''price'', JNum 4)])) ''usb-cable'' sample_store)
       = sample_store"
  using PUT_missing_row [of "admin_request (JObj [(''price'', JNum 4)])" admin_env sample_store
      "''usb-cable''"]
  by (simp add: admin_request_authorized(1)) (simp add: sample_store_def sample_catalog_def sample_row_def)

lemma apply_update_frame:
  assumes "apply_update u p = Some p'"
  shows "slug p' = slug p \<and> id' p' = id' p \<and> created_at p' = created_at p
         \<and> last_updated p' = u_last_updated u"
  using assms by (auto simp: apply_update_def split: option.splits)

lemma store_update_slugs: "map slug (rows (snd (store_update st u s))) = map slug (rows st)"
proof (cases "fault st")
  case (Some m)
  then show ?thesis by (simp add: store_update_def)
next
  case None
  show ?thesis
  proof (cases "eq_slug s (rows st)")
    case Nil
    with None show ?thesis by (simp add: store_update_def)
  next
    case (Cons p ps)
    show ?thesis
    proof (cases ps)
      case (Cons q qs)
      with \<open>eq_slug s (rows st) = p # ps\<close> None show ?thesis by (simp add: store_update_def)
    next
      case Nil
      with \<open>eq_slug s (rows st) = p # ps\<close> have one: "eq_slug s (rows st) = [p]" by simp
      then have "p \<in> set (eq_slug s (rows st))" by simp
      then have sp: "slug p = s" by (simp add: eq_slug_def)
      show ?thesis
      proof (cases "apply_update u p")
        case None
        with \<open>fault st = None\<close> one show ?thesis by (simp add: store_update_def)
      next
        case (Some p')
        then have "slug p' = s"
          using apply_update_frame [OF Some] sp by simp
        then have "map slug (map (\<lambda>r. if slug r = s then p' else r) (rows st)) = map slug (rows st)"
          by (simp add: comp_def cong: map_cong)
        with Some \<open>fault st = None\<close> one show ?thesis by (simp add: store_update_def)
      qed
    qed
  qed
qed

text \<open>
  C8. No update changes a slug: whatever the request is, and also when its body has a
  \<open>slug\<close> field, the rows of the store carry the same slugs, in the same order,
  after the request as before it.
\<close>

theorem PUT_keeps_slugs: "map slug (rows (snd (PUT e req s st))) = map slug (rows st)"
proof -
  have r: "\<And>u. map slug (rows (snd (case store_update st u s of
                 (PgError msg, st') \<Rightarrow> (json_error msg 500, st')
               | (PgData p, st') \<Rightarrow> (\<lparr> status = 200, reply = ProductReply p \<rparr>, st')))) = map slug (rows st)"
    using store_update_slugs by (auto split: prod.splits pg_response.splits) (metis snd_conv)+
  show ?thesis
    by (simp add: PUT_def Let_def r split: option.splits json.splits)
qed

theorem PUT_keeps_slugs_witness:
  "map slug (rows (snd (PUT admin_env
      (admin_request (JObj [(''slug'', JStr ''mouse''), (''price'', JNum 25)]))
      ''wireless-mouse'' sample_store)))
   = [''laptop-pro-15'', ''wireless-mouse'', ''mechanical-keyboard'', ''usb-c-hub'',
      ''laptop-stand'', ''noise-cancelling-headphones'', ''portable-ssd-1tb'', ''webcam-hd'',
      ''phone-stand'', ''monitor-27'']"
  using PUT_keeps_slugs [of admin_env
      "admin_request (JObj [(''slug'', JStr ''mouse''), (''price'', JNum 25)])"
      "''wireless-mouse''" sample_store]
  by (simp add: sample_store_def sample_catalog_def sample_row_def)

lemma set_column_text: "set_column as_text (map_option JStr v) old = Some (case v of None \<Rightarrow> old | Some x \<Rightarrow> x)"
  by (cases v) (simp_all add: set_column_def)

lemma set_column_numeric: "set_column as_numeric (map_option JNum v) old = Some (case v of None \<Rightarrow> old | Some x \<Rightarrow> x)"
  by (cases v) (simp_all add: set_column_def)

lemma set_column_integer:
  "set_column as_integer (map_option (\<lambda>x. JNum (of_int x)) v) old = Some (case v of None \<Rightarrow> old | Some x \<Rightarrow> x)"
  by (cases v) (simp_all add: set_column_def)

lemma apply_update_typed:
  "apply_update \<lparr> u_last_updated = t, u_name = map_option JStr n,
       u_description = map_option JStr d, u_price = map_option JNum pr,
       u_category = map_option JStr c, u_inventory = map_option (\<lambda>x. JNum (of_int x)) i \<rparr> p
   = Some (updated_product p n d pr c i t)"
  by (simp add: apply_update_def set_column_text set_column_numeric set_column_integer
      updated_product_def)

lemma eq_slug_single:
  assumes "slug p = s" "\<forall>r\<in>set (before @ after). slug r \<noteq> s"
  shows "eq_slug s (before @ p # after) = [p]"
  using assms by (simp add: eq_slug_def filter_empty_conv)

lemma replace_single:
  assumes "slug p = s" "\<forall>r\<in>set (before @ after). slug r \<noteq> s"
  shows "map (\<lambda>r. if slug r = s then p' else r) (before @ p # after) = before @ p' # after"
  using assms by (simp add: map_idI)

text \<open>
  C3. An authorized update of an existing product, with any choice of the fields
  \<open>name\<close>, \<open>description\<close>, \<open>price\<close>, \<open>category\<close> and \<open>inventory\<close> supplied in the
  body, is answered with 200 and replaces the row by the product in which exactly the
  supplied fields have their new values, every other field has its old value, and
  \<open>last_updated\<close> is the current time; every other row is unchanged.  With no field
  supplied, only \<open>last_updated\<close> changes.
\<close>

theorem PUT_changes_supplied_fields:
  assumes "\<not> strict_neq (x_admin_key req) (ADMIN_KEY e)"
    and "body req = Some (JObj kvs)"
    and "map_of kvs ''name'' = map_option JStr n"
    and "map_of kvs ''description'' = map_option JStr d"
    and "map_of kvs ''price'' = map_option JNum pr"
    and "map_of kvs ''category'' = map_option JStr c"
    and "map_of kvs ''inventory'' = map_option (\<lambda>x. JNum (of_int x)) i"
    and "fault st = None"
    and "rows st = before @ p # after"
    and "slug p = s"
    and "\<forall>r\<in>set (before @ after). slug r \<noteq> s"
  shows "PUT e req s st =
           (\<lparr> status = 200, reply = ProductReply (updated_product p n d pr c i (now e)) \<rparr>,
            st\<lparr> rows := before @ updated_product p n d pr c i (now e) # after \<rparr>)
       \<and> updated_product p None None None None None (now e) = p\<lparr> last_updated := now e \<rparr>"
proof -
  have "store_update st \<lparr> u_last_updated = now e, u_name = map_option JStr n,
       u_description = map_option JStr d, u_price = map_option JNum pr,
       u_category = map_option JStr c, u_inventory = map_option (\<lambda>x. JNum (of_int x)) i \<rparr> s
     = (PgData (updated_product p n d pr c i (now e)),
        st\<lparr> rows := before @ updated_product p n d pr c i (now e) # after \<rparr>)"
    using assms(8,9) eq_slug_single [OF assms(10,11)] replace_single [OF assms(10,11)]
    by (simp add: store_update_def apply_update_typed)
  then have "PUT e req s st =
           (\<lparr> status = 200, reply = ProductReply (updated_product p n d pr c i (now e)) \<rparr>,
            st\<lparr> rows := before @ updated_product p n d pr c i (now e) # after \<rparr>)"
    using assms(1-7) by (simp add: PUT_def)
  then show ?thesis by (simp add: updated_product_def)
qed

theorem PUT_changes_supplied_fields_witness:
  "PUT admin_env
     (admin_request (JObj [(''slug'', JStr ''mouse''), (''price'', JNum 25), (''inventory'', JNum 50)]))
     ''wireless-mouse'' sample_store
   = (\<lparr> status = 200,
        reply = ProductReply (sample_row 2 ''Wireless Mouse'' ''wireless-mouse''
                   ''Ergonomic wireless mouse with precision tracking'' 25 ''Electronics'' 50
                   \<lparr> last_updated := 1000 \<rparr>) \<rparr>,
      sample_store\<lparr> rows := take 1 sample_catalog
          @ (sample_row 2 ''Wireless Mouse'' ''wireless-mouse''
               ''Ergonomic wireless mouse with precision tracking'' 25 ''Electronics'' 50
               \<lparr> last_updated := 1000 \<rparr>) # drop 2 sample_catalog \<rparr>)"
  using PUT_changes_supplied_fields [of
      "admin_request (JObj [(''slug'', JStr ''mouse''), (''price'', JNum 25), (''inventory'', JNum 50)])"
      admin_env "[(''slug'', JStr ''mouse''), (''price'', JNum 25), (''inventory'', JNum 50)]"
      None None "Some 25" None "Some 50" sample_store "take 1 sample_catalog" "sample_catalog ! 1"
      "drop 2 sample_catalog" "''wireless-mouse''"]
  by (simp add: admin_request_def admin_env_def strict_neq_def sample_store_def sample_catalog_def
      sample_row_def updated_product_def)

subsection \<open>The client-side filter\<close>

















end
